theory Spec2Isabelle
  imports Main "HOL-Library.Sublist"
begin

section \<open>Vocabulary of the task domain (types.ts)\<close>

text \<open>
  The two string enums of the source are closed enumerations; \<open>Object.values\<close> of an
  enum is the list of its members in declaration order.
\<close>

datatype TaskPriority = LOW | MEDIUM | HIGH | URGENT

datatype TaskStatus = TODO | IN_PROGRESS | REVIEW | DONE

definition TaskPriority_values :: "TaskPriority list" where
  "TaskPriority_values = [LOW, MEDIUM, HIGH, URGENT]"


text \<open>
  A JavaScript \<open>Date\<close> holds a time value in milliseconds or \<open>NaN\<close> (an invalid date).
  Relational operators on two dates compare the time values, and every comparison with
  \<open>NaN\<close> is false.
\<close>

datatype Date = Invalid_Date | Date int

fun isNaN_getTime :: "Date \<Rightarrow> bool" where
  "isNaN_getTime Invalid_Date = True"
| "isNaN_getTime (Date t) = False"

fun date_less :: "Date \<Rightarrow> Date \<Rightarrow> bool" where
  "date_less (Date a) (Date b) = (a < b)"
| "date_less _ _ = False"

fun date_le :: "Date \<Rightarrow> Date \<Rightarrow> bool" where
  "date_le (Date a) (Date b) = (a \<le> b)"
| "date_le _ _ = False"

text \<open>
  \<open>interface TaskId { value: string }\<close> and \<open>interface Tag { id; name; color? }\<close>.
  The fields of \<open>Tag\<close> carry a prefix, since \<open>id\<close> is also a field of \<open>Task\<close>.
\<close>

record TaskId =
  value' :: string

record Tag =
  tag_id :: string
  tag_name :: string
  tag_color :: "string option"

text \<open>\<open>interface Task\<close>: optional fields are options, the others are required.\<close>

record Task =
  id' :: TaskId
  title :: string
  description :: "string option"
  status :: TaskStatus
  priority :: TaskPriority
  dueDate :: "Date option"
  tags :: "Tag list option"
  createdAt :: Date
  updatedAt :: Date
  assigneeId :: "string option"
  creatorId :: string

text \<open>
  \<open>Partial<Task>\<close>, the type of the builder's private field: every field may be absent.
\<close>

record PartialTask =
  draft_id :: "TaskId option"
  draft_title :: "string option"
  draft_description :: "string option"
  draft_status :: "TaskStatus option"
  draft_priority :: "TaskPriority option"
  draft_dueDate :: "Date option"
  draft_tags :: "Tag list option"
  draft_createdAt :: "Date option"
  draft_updatedAt :: "Date option"
  draft_assigneeId :: "string option"
  draft_creatorId :: "string option"

definition empty_object :: PartialTask where
  "empty_object =
     \<lparr>draft_id = None, draft_title = None, draft_description = None, draft_status = None,
      draft_priority = None, draft_dueDate = None, draft_tags = None, draft_createdAt = None,
      draft_updatedAt = None, draft_assigneeId = None, draft_creatorId = None\<rparr>"

text \<open>
  The cast \<open>this.task as Task\<close> is unchecked in the source. \<open>as_Task\<close> is the view of an
  object at type \<open>Task\<close>; it exists exactly when the seven required fields are present.
\<close>

definition as_Task :: "PartialTask \<Rightarrow> Task option" where
  "as_Task p =
     (case (draft_id p, draft_title p, draft_status p, draft_priority p,
            draft_createdAt p, draft_updatedAt p, draft_creatorId p) of
        (Some i, Some t, Some s, Some pr, Some c, Some u, Some cr) \<Rightarrow>
          Some \<lparr>id' = i, title = t, description = draft_description p, status = s,
                priority = pr, dueDate = draft_dueDate p, tags = draft_tags p,
                createdAt = c, updatedAt = u, assigneeId = draft_assigneeId p,
                creatorId = cr\<rparr>
      | _ \<Rightarrow> None)"

section \<open>Strings, errors and values at run time\<close>

text \<open>
  Strings are lists of code units and \<open>length\<close> is the source's \<open>.length\<close>. \<open>trim\<close>
  removes white space and line terminators from both ends; within the characters of
  \<open>char\<close> these are tab, line feed, vertical tab, form feed, carriage return, space and
  the no-break space.
\<close>

definition is_white_space :: "char \<Rightarrow> bool" where
  "is_white_space c =
     (c \<in> set [CHR 0x09, CHR 0x0A, CHR 0x0B, CHR 0x0C, CHR 0x0D, CHR '' '', CHR 0xA0])"

definition trim :: "string \<Rightarrow> string" where
  "trim s = rev (dropWhile is_white_space (rev (dropWhile is_white_space s)))"

text \<open>\<open>!v\<close> for a value of type \<open>string | undefined\<close>.\<close>

definition falsy :: "string option \<Rightarrow> bool" where
  "falsy v = (case v of None \<Rightarrow> True | Some s \<Rightarrow> s = [])"

datatype TaskValidationError = TaskValidationError (message: string)

text \<open>
  Three validators guard against arguments that are not of their declared type
  (\<open>Object.values(TaskPriority).includes\<close>, \<open>instanceof Date\<close>, \<open>Array.isArray\<close>). An
  argument of such an operation is therefore either a value of the declared type or some
  other value, of which nothing but its being other is used.
\<close>

datatype 'a dyn = Foreign | Typed 'a

section \<open>The environment: clock, identifier source and object store\<close>

text \<open>
  \<open>new Date()\<close> reads the wall clock and \<open>crypto.randomUUID()\<close> draws an identifier.
  Between two readings the wall clock may advance, stand still or be set back: the
  \<open>i\<close>-th reading is the previous one plus \<open>ticks i\<close> milliseconds, of either sign.
  Objects live in a store indexed by address, so that two references to one object see
  each other's writes.
\<close>

record world =
  now :: int
  ticks :: "nat \<Rightarrow> int"
  reads :: nat
  uuids :: "nat \<Rightarrow> string"
  drawn :: nat
  heap :: "nat \<Rightarrow> PartialTask"
  next_addr :: nat

definition new_Date :: "world \<Rightarrow> Date \<times> world" where
  "new_Date w =
     (let t = now w + ticks w (reads w)
      in (Date t, w\<lparr>now := t, reads := Suc (reads w)\<rparr>))"

definition randomUUID :: "world \<Rightarrow> string \<times> world" where
  "randomUUID w = (uuids w (drawn w), w\<lparr>drawn := Suc (drawn w)\<rparr>)"

definition assign :: "nat \<Rightarrow> (PartialTask \<Rightarrow> PartialTask) \<Rightarrow> world \<Rightarrow> world" where
  "assign r f w = w\<lparr>heap := (heap w)(r := f (heap w r))\<rparr>"

section \<open>TaskBuilder (task.builder.ts)\<close>

record TaskBuilder =
  task :: nat

definition TaskBuilder_new :: "string \<Rightarrow> world \<Rightarrow> TaskBuilder \<times> world" where
  "TaskBuilder_new creator w =
     (let (uuid, w1) = randomUUID w;
          (created, w2) = new_Date w1;
          (updated, w3) = new_Date w2;
          a = next_addr w3;
          obj = \<lparr>draft_id = Some \<lparr>value' = uuid\<rparr>, draft_title = None,
                 draft_description = None, draft_status = Some TODO,
                 draft_priority = Some MEDIUM, draft_dueDate = None, draft_tags = None,
                 draft_createdAt = Some created, draft_updatedAt = Some updated,
                 draft_assigneeId = None, draft_creatorId = Some creator\<rparr>
      in (\<lparr>task = a\<rparr>, w3\<lparr>heap := (heap w3)(a := obj), next_addr := Suc a\<rparr>))"

subsection \<open>Private validators\<close>

text \<open>
  A validator of the source returns nothing or throws. Here a throw is \<open>Inl\<close>; the three
  validators with a type guard return, on success, the argument at its declared type.
\<close>

definition validateRequiredFields ::
  "TaskBuilder \<Rightarrow> world \<Rightarrow> TaskValidationError + unit" where
  "validateRequiredFields b w =
     (if falsy (draft_title (heap w (task b)))
      then Inl (TaskValidationError ''Title is required'')
      else if falsy (draft_creatorId (heap w (task b)))
      then Inl (TaskValidationError ''Creator ID is required'')
      else Inr ())"

definition validateTitle :: "string \<Rightarrow> TaskValidationError + unit" where
  "validateTitle t =
     (if trim t = [] then Inl (TaskValidationError ''Title cannot be empty'')
      else if length t > 100
      then Inl (TaskValidationError ''Title must not exceed 100 characters'')
      else Inr ())"

definition validatePriority :: "TaskPriority dyn \<Rightarrow> TaskValidationError + TaskPriority" where
  "validatePriority p =
     (case p of
        Foreign \<Rightarrow> Inl (TaskValidationError ''Invalid priority value'')
      | Typed v \<Rightarrow>
          if v \<in> set TaskPriority_values then Inr v
          else Inl (TaskValidationError ''Invalid priority value''))"

definition validateDueDate ::
  "Date dyn \<Rightarrow> world \<Rightarrow> (TaskValidationError + Date) \<times> world" where
  "validateDueDate d w =
     (case d of
        Foreign \<Rightarrow> (Inl (TaskValidationError ''Invalid due date''), w)
      | Typed v \<Rightarrow>
          if isNaN_getTime v then (Inl (TaskValidationError ''Invalid due date''), w)
          else (let (current, w1) = new_Date w
                in if date_less v current
                   then (Inl (TaskValidationError ''Due date cannot be in the past''), w1)
                   else (Inr v, w1)))"

definition validateTag :: "Tag \<Rightarrow> TaskValidationError + unit" where
  "validateTag tag =
     (if tag_id tag = [] \<or> tag_name tag = []
      then Inl (TaskValidationError ''Each tag must have an id and name'')
      else if length (tag_name tag) > 50
      then Inl (TaskValidationError ''Tag name must not exceed 50 characters'')
      else Inr ())"

text \<open>\<open>tags.forEach\<close>: the first tag that throws ends the loop.\<close>

fun forEach_validateTag :: "Tag list \<Rightarrow> TaskValidationError + unit" where
  "forEach_validateTag [] = Inr ()"
| "forEach_validateTag (tag # rest) =
     (case validateTag tag of Inl e \<Rightarrow> Inl e | Inr _ \<Rightarrow> forEach_validateTag rest)"

definition validateTags :: "Tag list dyn \<Rightarrow> TaskValidationError + Tag list" where
  "validateTags ts =
     (case ts of
        Foreign \<Rightarrow> Inl (TaskValidationError ''Tags must be an array'')
      | Typed xs \<Rightarrow>
          (case forEach_validateTag xs of Inl e \<Rightarrow> Inl e | Inr _ \<Rightarrow> Inr xs))"

subsection \<open>The fluent interface\<close>

text \<open>
  Each method returns \<open>this\<close>, or throws; the world after the call is returned in both
  cases, so that what a failed call leaves behind can be stated.
\<close>

definition withTitle ::
  "string \<Rightarrow> TaskBuilder \<Rightarrow> world \<Rightarrow> (TaskValidationError + TaskBuilder) \<times> world" where
  "withTitle t b w =
     (case validateTitle t of
        Inl e \<Rightarrow> (Inl e, w)
      | Inr _ \<Rightarrow> (Inr b, assign (task b) (\<lambda>obj. obj\<lparr>draft_title := Some t\<rparr>) w))"

definition withDescription ::
  "string \<Rightarrow> TaskBuilder \<Rightarrow> world \<Rightarrow> (TaskValidationError + TaskBuilder) \<times> world" where
  "withDescription d b w =
     (if length d > 1000
      then (Inl (TaskValidationError ''Description must not exceed 1000 characters''), w)
      else (Inr b, assign (task b) (\<lambda>obj. obj\<lparr>draft_description := Some d\<rparr>) w))"

definition withPriority ::
  "TaskPriority dyn \<Rightarrow> TaskBuilder \<Rightarrow> world \<Rightarrow> (TaskValidationError + TaskBuilder) \<times> world"
  where
  "withPriority p b w =
     (case validatePriority p of
        Inl e \<Rightarrow> (Inl e, w)
      | Inr v \<Rightarrow> (Inr b, assign (task b) (\<lambda>obj. obj\<lparr>draft_priority := Some v\<rparr>) w))"

definition withDueDate ::
  "Date dyn \<Rightarrow> TaskBuilder \<Rightarrow> world \<Rightarrow> (TaskValidationError + TaskBuilder) \<times> world" where
  "withDueDate d b w =
     (case validateDueDate d w of
        (Inl e, w1) \<Rightarrow> (Inl e, w1)
      | (Inr v, w1) \<Rightarrow> (Inr b, assign (task b) (\<lambda>obj. obj\<lparr>draft_dueDate := Some v\<rparr>) w1))"

definition withAssignee ::
  "string \<Rightarrow> TaskBuilder \<Rightarrow> world \<Rightarrow> (TaskValidationError + TaskBuilder) \<times> world" where
  "withAssignee a b w =
     (if trim a = [] then (Inl (TaskValidationError ''Assignee ID cannot be empty''), w)
      else (Inr b, assign (task b) (\<lambda>obj. obj\<lparr>draft_assigneeId := Some a\<rparr>) w))"

definition withTags ::
  "Tag list dyn \<Rightarrow> TaskBuilder \<Rightarrow> world \<Rightarrow> (TaskValidationError + TaskBuilder) \<times> world"
  where
  "withTags ts b w =
     (case validateTags ts of
        Inl e \<Rightarrow> (Inl e, w)
      | Inr xs \<Rightarrow> (Inr b, assign (task b) (\<lambda>obj. obj\<lparr>draft_tags := Some xs\<rparr>) w))"

text \<open>
  \<open>build\<close> returns \<open>this.task\<close> itself: the result is the address of the builder's
  object, not of a copy.
\<close>

definition build :: "TaskBuilder \<Rightarrow> world \<Rightarrow> (TaskValidationError + nat) \<times> world" where
  "build b w =
     (case validateRequiredFields b w of
        Inl e \<Rightarrow> (Inl e, w)
      | Inr _ \<Rightarrow> (Inr (task b), w))"

text \<open>
  The calls of the fluent interface as data, and a chain of calls on one builder
  (\<open>b.withTitle(..).withPriority(..)\<close>): a call that throws ends the chain.
\<close>

datatype call =
    WithTitle string
  | WithDescription string
  | WithPriority "TaskPriority dyn"
  | WithDueDate "Date dyn"
  | WithAssignee string
  | WithTags "Tag list dyn"

fun invoke ::
  "call \<Rightarrow> TaskBuilder \<Rightarrow> world \<Rightarrow> (TaskValidationError + TaskBuilder) \<times> world" where
  "invoke (WithTitle t) b w = withTitle t b w"
| "invoke (WithDescription d) b w = withDescription d b w"
| "invoke (WithPriority p) b w = withPriority p b w"
| "invoke (WithDueDate d) b w = withDueDate d b w"
| "invoke (WithAssignee a) b w = withAssignee a b w"
| "invoke (WithTags ts) b w = withTags ts b w"

fun chain ::
  "call list \<Rightarrow> TaskBuilder \<Rightarrow> world \<Rightarrow> (TaskValidationError + TaskBuilder) \<times> world" where
  "chain [] b w = (Inr b, w)"
| "chain (c # cs) b w =
     (case invoke c b w of
        (Inl e, w1) \<Rightarrow> (Inl e, w1)
      | (Inr b1, w1) \<Rightarrow> chain cs b1 w1)"

section \<open>TaskEntity (task.entity.ts)\<close>

text \<open>
  \<open>class TaskEntity implements Task\<close> has the fields of \<open>Task\<close>; its constructor copies
  them one by one from the task it is given.
\<close>

type_synonym TaskEntity = Task

definition TaskEntity_new :: "Task \<Rightarrow> TaskEntity" where
  "TaskEntity_new t =
     \<lparr>id' = id' t, title = title t, description = description t, status = status t,
      priority = priority t, dueDate = dueDate t, tags = tags t, createdAt = createdAt t,
      updatedAt = updatedAt t, assigneeId = assigneeId t, creatorId = creatorId t\<rparr>"

text \<open>
  \<open>Partial<Omit<Task, 'id' | 'createdAt' | 'creatorId'>>\<close>: each of the other eight
  fields may be absent from the argument. A field that is optional in \<open>Task\<close> may also be
  present with the value \<open>undefined\<close>, which \<open>Object.assign\<close> copies like any other.
  For the four fields that \<open>Task\<close> requires, only absence and a value of the field's type
  are represented: \<open>undefined\<close> there would leave the entity outside its declared type.
\<close>

record TaskUpdates =
  set_title :: "string option"
  set_description :: "string option option"
  set_status :: "TaskStatus option"
  set_priority :: "TaskPriority option"
  set_dueDate :: "Date option option"
  set_tags :: "Tag list option option"
  set_updatedAt :: "Date option"
  set_assigneeId :: "string option option"

definition no_updates :: TaskUpdates where
  "no_updates =
     \<lparr>set_title = None, set_description = None, set_status = None, set_priority = None,
      set_dueDate = None, set_tags = None, set_updatedAt = None, set_assigneeId = None\<rparr>"

definition own_or :: "'a option \<Rightarrow> 'a \<Rightarrow> 'a" where
  "own_or u old = (case u of None \<Rightarrow> old | Some v \<Rightarrow> v)"

definition Object_assign :: "TaskEntity \<Rightarrow> TaskUpdates \<Rightarrow> TaskEntity" where
  "Object_assign e u =
     e\<lparr>title := own_or (set_title u) (title e),
       description := own_or (set_description u) (description e),
       status := own_or (set_status u) (status e),
       priority := own_or (set_priority u) (priority e),
       dueDate := own_or (set_dueDate u) (dueDate e),
       tags := own_or (set_tags u) (tags e),
       updatedAt := own_or (set_updatedAt u) (updatedAt e),
       assigneeId := own_or (set_assigneeId u) (assigneeId e)\<rparr>"

definition update :: "TaskUpdates \<Rightarrow> TaskEntity \<Rightarrow> world \<Rightarrow> TaskEntity \<times> world" where
  "update u e w =
     (let e1 = Object_assign e u;
          (current, w1) = new_Date w
      in (e1\<lparr>updatedAt := current\<rparr>, w1))"


section \<open>Scenarios\<close>

text \<open>
  A world in which nothing has happened yet, whose clock moves by \<open>d\<close> milliseconds
  before each reading, and the end-to-end scenario of the specification run in it:
  construct for creator \<open>u1\<close>, set the title and the priority, build.
\<close>

definition fresh_world :: "int \<Rightarrow> world" where
  "fresh_world d =
     \<lparr>now = 1000, ticks = (\<lambda>i. d), reads = 0, uuids = (\<lambda>i. replicate (Suc i) CHR ''u''),
      drawn = 0, heap = (\<lambda>a. empty_object), next_addr = 0\<rparr>"

definition release_calls :: "call list" where
  "release_calls = [WithTitle ''Ship release'', WithPriority (Typed HIGH)]"

definition release_builder :: "int \<Rightarrow> TaskBuilder" where
  "release_builder d = fst (TaskBuilder_new ''u1'' (fresh_world d))"

definition release_world :: "int \<Rightarrow> world" where
  "release_world d =
     snd (chain release_calls (release_builder d) (snd (TaskBuilder_new ''u1'' (fresh_world d))))"

text \<open>The task this scenario builds, as the caller reads it after \<open>build\<close>.\<close>

definition shipped :: "int \<Rightarrow> Task" where
  "shipped d =
     \<lparr>id' = \<lparr>value' = ''u''\<rparr>, title = ''Ship release'', description = None, status = TODO,
      priority = HIGH, dueDate = None, tags = None, createdAt = Date (1000 + d),
      updatedAt = Date (1000 + 2 * d), assigneeId = None, creatorId = ''u1''\<rparr>"

text \<open>
  A second scenario on the same builder, with the clock standing still: every operation
  is called, \<open>withTitle\<close> twice, the second time with a title that has a space at each
  end.
\<close>

definition review_calls :: "call list" where
  "review_calls =
     [WithTitle ''Draft'', WithDescription ''Tag the build'', WithPriority (Typed URGENT),
      WithDueDate (Typed (Date 5000)), WithAssignee ''u2'',
      WithTags (Typed [\<lparr>tag_id = ''1'', tag_name = ''ok'', tag_color = None\<rparr>,
                       \<lparr>tag_id = ''2'', tag_name = ''later'', tag_color = Some ''red''\<rparr>]),
      WithTitle '' Ship release '']"

definition review_world :: world where
  "review_world =
     snd (chain review_calls (release_builder 0) (snd (TaskBuilder_new ''u1'' (fresh_world 0))))"

section \<open>Notions of the specification\<close>

text \<open>
  The arguments the specification calls invalid, operation by operation: a title that is
  empty after trimming or longer than 100 characters; a description longer than 1000; a
  priority outside the enumeration; a due date that is no valid date or is earlier than
  the clock at the moment of the call; an assignee that is empty after trimming; tags
  that are no sequence, or of which one lacks an id or a name or has a name longer than
  50 characters.
\<close>

fun invalid_arg :: "call \<Rightarrow> world \<Rightarrow> bool" where
  "invalid_arg (WithTitle t) w = (trim t = [] \<or> 100 < length t)"
| "invalid_arg (WithDescription d) w = (1000 < length d)"
| "invalid_arg (WithPriority p) w =
     (case p of Foreign \<Rightarrow> True | Typed v \<Rightarrow> v \<notin> set TaskPriority_values)"
| "invalid_arg (WithDueDate d) w =
     (case d of
        Foreign \<Rightarrow> True
      | Typed v \<Rightarrow> isNaN_getTime v \<or> date_less v (fst (new_Date w)))"
| "invalid_arg (WithAssignee a) w = (trim a = [])"
| "invalid_arg (WithTags ts) w =
     (case ts of
        Foreign \<Rightarrow> True
      | Typed xs \<Rightarrow>
          list_ex (\<lambda>tag. tag_id tag = [] \<or> tag_name tag = [] \<or> 50 < length (tag_name tag)) xs)"

text \<open>
  An argument is valid when it is not invalid in this sense. The arguments of a chain of
  calls are valid when each of them is valid at the moment of its call.
\<close>

fun valid_args :: "call list \<Rightarrow> TaskBuilder \<Rightarrow> world \<Rightarrow> bool" where
  "valid_args [] b w = True"
| "valid_args (c # cs) b w = (\<not> invalid_arg c w \<and> valid_args cs b (snd (invoke c b w)))"





text \<open>
  What a call sets: the value a successful call stores in its field, and the value the
  last such call of a chain supplied.
\<close>

fun title_arg :: "call \<Rightarrow> string option" where
  "title_arg (WithTitle t) = Some t"
| "title_arg _ = None"

fun description_arg :: "call \<Rightarrow> string option" where
  "description_arg (WithDescription d) = Some d"
| "description_arg _ = None"

fun priority_arg :: "call \<Rightarrow> TaskPriority option" where
  "priority_arg (WithPriority (Typed p)) = Some p"
| "priority_arg _ = None"

fun dueDate_arg :: "call \<Rightarrow> Date option" where
  "dueDate_arg (WithDueDate (Typed d)) = Some d"
| "dueDate_arg _ = None"

fun assignee_arg :: "call \<Rightarrow> string option" where
  "assignee_arg (WithAssignee a) = Some a"
| "assignee_arg _ = None"

fun tags_arg :: "call \<Rightarrow> Tag list option" where
  "tags_arg (WithTags (Typed xs)) = Some xs"
| "tags_arg _ = None"

fun last_arg :: "(call \<Rightarrow> 'a option) \<Rightarrow> call list \<Rightarrow> 'a option" where
  "last_arg f [] = None"
| "last_arg f (c # cs) = (case last_arg f cs of Some v \<Rightarrow> Some v | None \<Rightarrow> f c)"

section \<open>Invariants of the draft and of the entity\<close>





section \<open>Auxiliary facts\<close>

lemmas env_defs = new_Date_def randomUUID_def assign_def

lemmas with_defs = withTitle_def withDescription_def withPriority_def withDueDate_def
  withAssignee_def withTags_def validateDueDate_def

subsection \<open>Strings and enumerations\<close>


lemma trim_Nil: "trim [] = []"
  by (simp add: trim_def)

lemma trim_Ship: "trim ''Ship release'' = ''Ship release''"
  by (simp add: trim_def is_white_space_def)

lemma trim_Changed: "trim ''Changed'' = ''Changed''"
  by (simp add: trim_def is_white_space_def)

lemma trim_Valid: "trim ''Valid'' = ''Valid''"
  by (simp add: trim_def is_white_space_def)

lemma trim_Draft: "trim ''Draft'' = ''Draft''"
  by (simp add: trim_def is_white_space_def)

lemma trim_u2: "trim ''u2'' = ''u2''"
  by (simp add: trim_def is_white_space_def)

lemma trim_spaced: "trim '' Ship release '' = ''Ship release''"
  by (simp add: trim_def is_white_space_def)

lemma trim_padded: "trim (CHR ''a'' # replicate 100 CHR '' '') = ''a''"
proof -
  have sp: "is_white_space CHR '' ''" and na: "\<not> is_white_space CHR ''a''"
    by (simp_all add: is_white_space_def)
  have d: "dropWhile is_white_space (replicate 100 CHR '' '' @ ''a'') = ''a''"
    using sp na by (subst dropWhile_append2) auto
  show ?thesis
    unfolding trim_def using na by (simp add: d)
qed




lemma forEach_validateTag_throws:
  "list_ex (\<lambda>tag. tag_id tag = [] \<or> tag_name tag = [] \<or> 50 < length (tag_name tag)) xs \<Longrightarrow>
   \<exists>e. forEach_validateTag xs = Inl e"
  by (induction xs) (auto simp: validateTag_def split: sum.splits)

lemma forEach_validateTag_passes:
  "\<not> list_ex (\<lambda>tag. tag_id tag = [] \<or> tag_name tag = [] \<or> 50 < length (tag_name tag)) xs \<Longrightarrow>
   forEach_validateTag xs = Inr ()"
  by (induction xs) (auto simp: validateTag_def)

subsection \<open>The clock\<close>



subsection \<open>One call\<close>

lemma invoke_same_builder: "invoke c b w = (Inr b1, w1) \<Longrightarrow> b1 = b"
  by (cases c) (auto simp: with_defs Let_def split: sum.splits if_splits dyn.splits prod.splits)

lemma valid_accepted: "\<not> invalid_arg c w \<Longrightarrow> fst (invoke c b w) = Inr b"
proof (cases c)
  case (WithTags ts)
  assume "\<not> invalid_arg c w"
  with WithTags show ?thesis
    by (cases ts) (simp_all add: withTags_def validateTags_def forEach_validateTag_passes)
next
  case (WithDueDate d)
  assume "\<not> invalid_arg c w"
  with WithDueDate show ?thesis
    by (cases d) (auto simp: withDueDate_def validateDueDate_def new_Date_def Let_def)
next
  case (WithPriority p)
  assume "\<not> invalid_arg c w"
  with WithPriority show ?thesis
    by (cases p) (simp_all add: withPriority_def validatePriority_def)
qed (auto simp: withTitle_def validateTitle_def withDescription_def withAssignee_def)


lemma invoke_untouched:
  "invoke c b w = (r, w1) \<Longrightarrow>
   draft_createdAt (heap w1 (task b)) = draft_createdAt (heap w (task b)) \<and>
   draft_updatedAt (heap w1 (task b)) = draft_updatedAt (heap w (task b)) \<and>
   draft_id (heap w1 (task b)) = draft_id (heap w (task b)) \<and>
   draft_status (heap w1 (task b)) = draft_status (heap w (task b)) \<and>
   draft_creatorId (heap w1 (task b)) = draft_creatorId (heap w (task b))"
  by (cases c)
    (auto simp: with_defs env_defs Let_def split: sum.splits if_splits dyn.splits prod.splits)


lemma invoke_field:
  assumes "invoke c b w = (Inr b1, w1)"
  shows "draft_title (heap w1 (task b)) =
           (case title_arg c of Some v \<Rightarrow> Some v | None \<Rightarrow> draft_title (heap w (task b)))"
    and "draft_description (heap w1 (task b)) =
           (case description_arg c of Some v \<Rightarrow> Some v
            | None \<Rightarrow> draft_description (heap w (task b)))"
    and "draft_priority (heap w1 (task b)) =
           (case priority_arg c of Some v \<Rightarrow> Some v
            | None \<Rightarrow> draft_priority (heap w (task b)))"
    and "draft_dueDate (heap w1 (task b)) =
           (case dueDate_arg c of Some v \<Rightarrow> Some v | None \<Rightarrow> draft_dueDate (heap w (task b)))"
    and "draft_assigneeId (heap w1 (task b)) =
           (case assignee_arg c of Some v \<Rightarrow> Some v
            | None \<Rightarrow> draft_assigneeId (heap w (task b)))"
    and "draft_tags (heap w1 (task b)) =
           (case tags_arg c of Some v \<Rightarrow> Some v | None \<Rightarrow> draft_tags (heap w (task b)))"
  using assms
  by (cases c; auto simp: with_defs env_defs validatePriority_def validateTags_def Let_def
        split: sum.splits if_splits dyn.splits prod.splits)+




subsection \<open>Chains of calls\<close>


lemma valid_args_accepted: "valid_args cs b w \<Longrightarrow> fst (chain cs b w) = Inr b"
proof (induction cs arbitrary: w)
  case Nil
  then show ?case by simp
next
  case (Cons c cs)
  then have ok: "fst (invoke c b w) = Inr b" and rest: "valid_args cs b (snd (invoke c b w))"
    by (simp_all add: valid_accepted)
  obtain x w' where c: "invoke c b w = (x, w')"
    by (cases "invoke c b w")
  with ok rest have "x = Inr b" and "valid_args cs b w'"
    by simp_all
  with c Cons.IH [of w'] show ?case by simp
qed

lemma chain_last_arg:
  assumes step: "\<And>c w b1 w1. invoke c b w = (Inr b1, w1) \<Longrightarrow>
            sel (heap w1 (task b)) =
              (case f c of Some v \<Rightarrow> Some v | None \<Rightarrow> sel (heap w (task b)))"
    and run: "chain cs b w = (Inr b1, w1)"
  shows "sel (heap w1 (task b)) =
           (case last_arg f cs of Some v \<Rightarrow> Some v | None \<Rightarrow> sel (heap w (task b)))"
  using run
proof (induction cs arbitrary: w)
  case Nil
  then show ?case by simp
next
  case (Cons c cs)
  from Cons.prems obtain w'
    where c: "invoke c b w = (Inr b, w')" and rest: "chain cs b w' = (Inr b1, w1)"
    by (auto split: prod.splits sum.splits dest: invoke_same_builder)
  show ?case
    using Cons.IH [OF rest] step [OF c] by (simp split: option.splits)
qed





subsection \<open>Constructor and build\<close>




lemma build_result:
  "build b w = (Inr r, w1) \<Longrightarrow>
   r = task b \<and> w1 = w \<and> \<not> falsy (draft_title (heap w (task b))) \<and>
   \<not> falsy (draft_creatorId (heap w (task b)))"
  by (auto simp: build_def validateRequiredFields_def split: sum.splits if_splits)


subsection \<open>Entity and update\<close>







subsection \<open>The scenarios\<close>

lemmas scenario_defs = release_calls_def TaskBuilder_new_def env_defs fresh_world_def Let_def
  withTitle_def withPriority_def validateTitle_def validatePriority_def
  TaskPriority_values_def trim_Ship

lemma release_builder_eq: "release_builder d = \<lparr>task = 0\<rparr>"
  by (simp add: release_builder_def TaskBuilder_new_def env_defs fresh_world_def Let_def)

lemma release_new:
  "TaskBuilder_new ''u1'' (fresh_world d) =
     (release_builder d, snd (TaskBuilder_new ''u1'' (fresh_world d)))"
  by (simp add: release_builder_def)

lemma release_world_heap:
  "heap (release_world d) 0 =
     \<lparr>draft_id = Some \<lparr>value' = ''u''\<rparr>, draft_title = Some ''Ship release'',
      draft_description = None, draft_status = Some TODO, draft_priority = Some HIGH,
      draft_dueDate = None, draft_tags = None, draft_createdAt = Some (Date (1000 + d)),
      draft_updatedAt = Some (Date (1000 + 2 * d)), draft_assigneeId = None,
      draft_creatorId = Some ''u1''\<rparr>"
  by (simp add: release_world_def release_builder_eq scenario_defs)

lemma release_world_clock:
  "now (release_world d) = 1000 + 2 * d \<and> ticks (release_world d) = (\<lambda>i. d)"
  by (simp add: release_world_def release_builder_eq scenario_defs)


lemma release_build: "build (release_builder d) (release_world d) = (Inr 0, release_world d)"
  by (simp add: build_def validateRequiredFields_def release_builder_eq release_world_heap
      falsy_def)

lemma release_task: "as_Task (heap (release_world d) 0) = Some (shipped d)"
  by (simp add: as_Task_def release_world_heap shipped_def)


lemmas review_defs = review_calls_def release_builder_eq TaskBuilder_new_def env_defs
  fresh_world_def Let_def with_defs validateTitle_def validatePriority_def validateTags_def
  validateTag_def TaskPriority_values_def trim_Draft trim_u2 trim_spaced

lemma review_valid_args:
  "valid_args review_calls (release_builder 0) (snd (TaskBuilder_new ''u1'' (fresh_world 0)))"
  by (simp add: review_defs)

lemma review_world_heap:
  "heap review_world 0 =
     \<lparr>draft_id = Some \<lparr>value' = ''u''\<rparr>, draft_title = Some '' Ship release '',
      draft_description = Some ''Tag the build'', draft_status = Some TODO,
      draft_priority = Some URGENT, draft_dueDate = Some (Date 5000),
      draft_tags = Some [\<lparr>tag_id = ''1'', tag_name = ''ok'', tag_color = None\<rparr>,
                         \<lparr>tag_id = ''2'', tag_name = ''later'', tag_color = Some ''red''\<rparr>],
      draft_createdAt = Some (Date 1000), draft_updatedAt = Some (Date 1000),
      draft_assigneeId = Some ''u2'', draft_creatorId = Some ''u1''\<rparr>"
  by (simp add: review_world_def review_defs)

lemma review_chain:
  "chain review_calls (release_builder 0) (snd (TaskBuilder_new ''u1'' (fresh_world 0))) =
     (Inr (release_builder 0), review_world)"
  using valid_args_accepted [OF review_valid_args]
  by (simp add: review_world_def prod_eq_iff)

lemma review_build: "build (release_builder 0) review_world = (Inr 0, review_world)"
  by (simp add: build_def validateRequiredFields_def release_builder_eq falsy_def
      review_world_heap)

section \<open>Claims\<close>

subsection \<open>The builder\<close>

text \<open>
  C8 (amended). For every creator id, the draft of a freshly constructed builder has
  status \<open>TODO\<close>, priority \<open>MEDIUM\<close> and the creator id verbatim; \<open>createdAt\<close> and
  \<open>updatedAt\<close> are two successive readings of the clock, \<open>createdAt\<close> first, and they are
  equal exactly when the second reading equals the first.
\<close>

theorem constructor_defaults:
  assumes "TaskBuilder_new creator w = (b, w1)"
  shows "draft_status (heap w1 (task b)) = Some TODO \<and>
         draft_priority (heap w1 (task b)) = Some MEDIUM \<and>
         draft_creatorId (heap w1 (task b)) = Some creator \<and>
         draft_createdAt (heap w1 (task b)) = Some (Date (now w + ticks w (reads w))) \<and>
         draft_updatedAt (heap w1 (task b)) =
           Some (Date (now w + ticks w (reads w) + ticks w (Suc (reads w)))) \<and>
         (draft_createdAt (heap w1 (task b)) = draft_updatedAt (heap w1 (task b))) =
           (ticks w (Suc (reads w)) = 0)"
  using assms by (auto simp: TaskBuilder_new_def env_defs Let_def)

text \<open>With a clock that stands still, the two time stamps of the scenario coincide.\<close>

theorem constructor_defaults_witness:
  "TaskBuilder_new ''u1'' (fresh_world 0) =
     (release_builder 0, snd (TaskBuilder_new ''u1'' (fresh_world 0))) \<and>
   ticks (fresh_world 0) (Suc (reads (fresh_world 0))) = 0 \<and>
   draft_status (heap (snd (TaskBuilder_new ''u1'' (fresh_world 0))) (task (release_builder 0))) =
     Some TODO \<and>
   draft_createdAt (heap (snd (TaskBuilder_new ''u1'' (fresh_world 0))) (task (release_builder 0))) =
     draft_updatedAt (heap (snd (TaskBuilder_new ''u1'' (fresh_world 0))) (task (release_builder 0)))"
proof -
  have z: "ticks (fresh_world 0) (Suc (reads (fresh_world 0))) = 0"
    by (simp add: fresh_world_def)
  from constructor_defaults [OF release_new [of 0]] z release_new [of 0] show ?thesis
    by blast
qed

text \<open>
  With a clock that advances by one millisecond before each reading, the draft is
  created at 1001 and last updated at 1002: the two time stamps differ.
\<close>

theorem constructor_timestamps_counterexample:
  "draft_createdAt (heap (snd (TaskBuilder_new ''u1'' (fresh_world 1))) (task (release_builder 1))) =
     Some (Date 1001) \<and>
   draft_updatedAt (heap (snd (TaskBuilder_new ''u1'' (fresh_world 1))) (task (release_builder 1))) =
     Some (Date 1002) \<and>
   draft_createdAt (heap (snd (TaskBuilder_new ''u1'' (fresh_world 1))) (task (release_builder 1))) \<noteq>
     draft_updatedAt (heap (snd (TaskBuilder_new ''u1'' (fresh_world 1))) (task (release_builder 1)))"
  by (simp add: release_builder_eq TaskBuilder_new_def env_defs fresh_world_def Let_def)

text \<open>
  C5 (amended). \<open>withTitle\<close> throws if and only if the title is empty after trimming or
  its length as given, before any trimming, exceeds 100 characters; on success the title
  is stored as given, not trimmed.
\<close>

theorem withTitle_throws_iff:
  "(\<exists>e. fst (withTitle t b w) = Inl e) = (trim t = [] \<or> 100 < length t) \<and>
   (\<not> (trim t = [] \<or> 100 < length t) \<longrightarrow>
      fst (withTitle t b w) = Inr b \<and>
      draft_title (heap (snd (withTitle t b w)) (task b)) = Some t)"
  by (auto simp: withTitle_def validateTitle_def assign_def)

theorem withTitle_throws_iff_witness:
  "\<not> (trim ''Valid'' = [] \<or> 100 < length ''Valid'') \<and>
   fst (withTitle ''Valid'' (release_builder 0) (release_world 0)) = Inr (release_builder 0) \<and>
   draft_title (heap (snd (withTitle ''Valid'' (release_builder 0) (release_world 0)))
     (task (release_builder 0))) = Some ''Valid''"
  using withTitle_throws_iff [of "''Valid''" "release_builder 0" "release_world 0"]
  by (simp add: trim_Valid)

text \<open>
  A title of one letter followed by 100 spaces has one character after trimming, which
  is neither empty nor more than 100, and is rejected all the same, for its 101
  characters before trimming.
\<close>

theorem withTitle_trimmed_length_counterexample:
  "trim (''a'' @ replicate 100 CHR '' '') \<noteq> [] \<and>
   \<not> 100 < length (trim (''a'' @ replicate 100 CHR '' '')) \<and>
   fst (withTitle (''a'' @ replicate 100 CHR '' '') (release_builder 0) (release_world 0)) =
     Inl (TaskValidationError ''Title must not exceed 100 characters'')"
  by (simp add: trim_padded withTitle_def validateTitle_def)

text \<open>
  C7. An invalid argument makes each of the six \<open>with\<close> operations throw a validation
  error, and the store of objects after the failed call is the store before it: the
  draft is as it was.
\<close>

theorem invalid_argument_leaves_draft:
  assumes "invalid_arg c w"
  shows "(\<exists>e. fst (invoke c b w) = Inl e) \<and> heap (snd (invoke c b w)) = heap w"
proof (cases c)
  case (WithTags ts)
  show ?thesis
  proof (cases ts)
    case Foreign
    with WithTags show ?thesis
      by (simp add: withTags_def validateTags_def)
  next
    case (Typed xs)
    with WithTags assms obtain e where "forEach_validateTag xs = Inl e"
      using forEach_validateTag_throws by fastforce
    with WithTags Typed show ?thesis
      by (simp add: withTags_def validateTags_def)
  qed
next
  case (WithDueDate d)
  with assms show ?thesis
    by (auto simp: withDueDate_def validateDueDate_def new_Date_def Let_def
        split: dyn.splits prod.splits)
qed (use assms in \<open>auto simp: withTitle_def validateTitle_def withDescription_def
       withPriority_def validatePriority_def withAssignee_def split: dyn.splits\<close>)

text \<open>
  A due date in the past and a tag whose name has 51 characters, each offered to the
  builder of the scenario.
\<close>

theorem invalid_argument_leaves_draft_witness:
  "invalid_arg (WithDueDate (Typed (Date 0))) (release_world 0) \<and>
   fst (invoke (WithDueDate (Typed (Date 0))) (release_builder 0) (release_world 0)) =
     Inl (TaskValidationError ''Due date cannot be in the past'') \<and>
   heap (snd (invoke (WithDueDate (Typed (Date 0))) (release_builder 0) (release_world 0))) =
     heap (release_world 0) \<and>
   invalid_arg
     (WithTags (Typed [\<lparr>tag_id = ''1'', tag_name = replicate 51 CHR ''x'', tag_color = None\<rparr>]))
     (release_world 0) \<and>
   heap (snd (invoke
     (WithTags (Typed [\<lparr>tag_id = ''1'', tag_name = replicate 51 CHR ''x'', tag_color = None\<rparr>]))
     (release_builder 0) (release_world 0))) = heap (release_world 0)"
proof -
  have past: "invalid_arg (WithDueDate (Typed (Date 0))) (release_world 0)"
    by (simp add: new_Date_def Let_def release_world_clock)
  have long: "invalid_arg
     (WithTags (Typed [\<lparr>tag_id = ''1'', tag_name = replicate 51 CHR ''x'', tag_color = None\<rparr>]))
     (release_world 0)"
    by simp
  have msg: "fst (invoke (WithDueDate (Typed (Date 0))) (release_builder 0) (release_world 0)) =
     Inl (TaskValidationError ''Due date cannot be in the past'')"
    by (simp add: withDueDate_def validateDueDate_def new_Date_def Let_def release_world_clock)
  from invalid_argument_leaves_draft [OF past, of "release_builder 0"]
    invalid_argument_leaves_draft [OF long, of "release_builder 0"] past long msg
  show ?thesis by simp
qed

text \<open>
  C6. \<open>build\<close> throws if and only if the title of the draft is missing or empty or its
  creator id is missing or empty. When the title is missing or empty, the error is
  \<open>Title is required\<close>, which mentions the title. A builder constructed with the empty
  string as creator id fails at \<open>build\<close> although a valid title was set.
\<close>

theorem build_throws_iff:
  "(\<exists>e. fst (build b w) = Inl e) =
     (falsy (draft_title (heap w (task b))) \<or> falsy (draft_creatorId (heap w (task b)))) \<and>
   (falsy (draft_title (heap w (task b))) \<longrightarrow>
      fst (build b w) = Inl (TaskValidationError ''Title is required'')) \<and>
   sublist ''Title'' (message (TaskValidationError ''Title is required'')) \<and>
   (validateTitle t = Inr () \<longrightarrow>
      fst (build (fst (TaskBuilder_new [] w))
             (snd (withTitle t (fst (TaskBuilder_new [] w)) (snd (TaskBuilder_new [] w))))) =
        Inl (TaskValidationError ''Creator ID is required''))"
proof -
  have "sublist ''Title'' ''Title is required''"
    by (rule prefix_imp_sublist) simp
  then show ?thesis
    by (auto simp: build_def validateRequiredFields_def withTitle_def TaskBuilder_new_def
        env_defs Let_def falsy_def validateTitle_def trim_Nil split: if_splits)
qed

text \<open>
  A builder on which no title was set, and a builder for the empty creator id on which
  the title \<open>Valid\<close> was set.
\<close>

theorem build_throws_iff_witness:
  "falsy (draft_title (heap (snd (TaskBuilder_new ''u1'' (fresh_world 0))) (task (release_builder 0)))) \<and>
   fst (build (release_builder 0) (snd (TaskBuilder_new ''u1'' (fresh_world 0)))) =
     Inl (TaskValidationError ''Title is required'') \<and>
   validateTitle ''Valid'' = Inr () \<and>
   fst (build (fst (TaskBuilder_new [] (fresh_world 0)))
          (snd (withTitle ''Valid'' (fst (TaskBuilder_new [] (fresh_world 0)))
             (snd (TaskBuilder_new [] (fresh_world 0)))))) =
     Inl (TaskValidationError ''Creator ID is required'')"
proof -
  have missing: "falsy (draft_title (heap (snd (TaskBuilder_new ''u1'' (fresh_world 0)))
      (task (release_builder 0))))"
    by (simp add: release_builder_eq TaskBuilder_new_def env_defs fresh_world_def Let_def
        falsy_def)
  have valid: "validateTitle ''Valid'' = Inr ()"
    by (simp add: validateTitle_def trim_Valid)
  from build_throws_iff [of "release_builder 0" "snd (TaskBuilder_new ''u1'' (fresh_world 0))"
      "''Valid''"]
    build_throws_iff [of "release_builder 0" "fresh_world 0" "''Valid''"] missing valid
  show ?thesis by simp
qed

text \<open>
  C4. A chain of \<open>with\<close> calls whose arguments are all valid succeeds, and after a
  successful \<open>build\<close> each field of the returned Task holds the argument of the last call
  that set it, as it was given (a title untrimmed, tags in their order); a field that no
  call set holds what it held before the chain.
\<close>

theorem chain_build_round_trip:
  assumes "valid_args cs b w" and "chain cs b w = (x, w1)" and "build b w1 = (Inr r, w2)"
  shows "x = Inr b \<and>
         draft_title (heap w2 r) =
           (case last_arg title_arg cs of Some v \<Rightarrow> Some v
            | None \<Rightarrow> draft_title (heap w (task b))) \<and>
         draft_description (heap w2 r) =
           (case last_arg description_arg cs of Some v \<Rightarrow> Some v
            | None \<Rightarrow> draft_description (heap w (task b))) \<and>
         draft_priority (heap w2 r) =
           (case last_arg priority_arg cs of Some v \<Rightarrow> Some v
            | None \<Rightarrow> draft_priority (heap w (task b))) \<and>
         draft_dueDate (heap w2 r) =
           (case last_arg dueDate_arg cs of Some v \<Rightarrow> Some v
            | None \<Rightarrow> draft_dueDate (heap w (task b))) \<and>
         draft_assigneeId (heap w2 r) =
           (case last_arg assignee_arg cs of Some v \<Rightarrow> Some v
            | None \<Rightarrow> draft_assigneeId (heap w (task b))) \<and>
         draft_tags (heap w2 r) =
           (case last_arg tags_arg cs of Some v \<Rightarrow> Some v
            | None \<Rightarrow> draft_tags (heap w (task b)))"
proof -
  from valid_args_accepted [OF assms(1)] assms(2) have x: "x = Inr b"
    by simp
  with assms(2) have run: "chain cs b w = (Inr b, w1)"
    by simp
  from assms(3) have r: "r = task b" and w2: "w2 = w1"
    by (simp_all add: build_result)
  show ?thesis
    unfolding r w2
    using x chain_last_arg [where sel = draft_title and f = title_arg, OF invoke_field(1) run]
      chain_last_arg [where sel = draft_description and f = description_arg,
        OF invoke_field(2) run]
      chain_last_arg [where sel = draft_priority and f = priority_arg, OF invoke_field(3) run]
      chain_last_arg [where sel = draft_dueDate and f = dueDate_arg, OF invoke_field(4) run]
      chain_last_arg [where sel = draft_assigneeId and f = assignee_arg,
        OF invoke_field(5) run]
      chain_last_arg [where sel = draft_tags and f = tags_arg, OF invoke_field(6) run]
    by simp
qed

text \<open>
  The second scenario: all six fields are set, the title twice. The Task holds the
  second title with its two spaces and the two tags in the order given.
\<close>

theorem chain_build_round_trip_witness:
  "valid_args review_calls (release_builder 0) (snd (TaskBuilder_new ''u1'' (fresh_world 0))) \<and>
   chain review_calls (release_builder 0) (snd (TaskBuilder_new ''u1'' (fresh_world 0))) =
     (Inr (release_builder 0), review_world) \<and>
   build (release_builder 0) review_world = (Inr 0, review_world) \<and>
   draft_title (heap review_world 0) = Some '' Ship release '' \<and>
   draft_description (heap review_world 0) = Some ''Tag the build'' \<and>
   draft_priority (heap review_world 0) = Some URGENT \<and>
   draft_dueDate (heap review_world 0) = Some (Date 5000) \<and>
   draft_assigneeId (heap review_world 0) = Some ''u2'' \<and>
   draft_tags (heap review_world 0) =
     Some [\<lparr>tag_id = ''1'', tag_name = ''ok'', tag_color = None\<rparr>,
           \<lparr>tag_id = ''2'', tag_name = ''later'', tag_color = Some ''red''\<rparr>]"
  using chain_build_round_trip [OF review_valid_args review_chain review_build]
    review_valid_args review_chain review_build
  by (simp add: review_calls_def)

text \<open>
  C1 (amended). The Task that \<open>build\<close> returns is the builder's draft itself, not a
  copy: a later successful \<open>with\<close> call on the same builder changes the corresponding
  field of the Task already returned and leaves its other fields as they were, and a
  write to the returned Task is a write to the draft.
\<close>

theorem build_returns_the_draft:
  assumes "build b w = (Inr r, w1)" and "invoke c b w1 = (Inr b2, w2)"
  shows "r = task b \<and> w1 = w \<and> b2 = b \<and>
         draft_title (heap w2 r) =
           (case title_arg c of Some v \<Rightarrow> Some v | None \<Rightarrow> draft_title (heap w1 r)) \<and>
         draft_description (heap w2 r) =
           (case description_arg c of Some v \<Rightarrow> Some v
            | None \<Rightarrow> draft_description (heap w1 r)) \<and>
         draft_priority (heap w2 r) =
           (case priority_arg c of Some v \<Rightarrow> Some v | None \<Rightarrow> draft_priority (heap w1 r)) \<and>
         draft_dueDate (heap w2 r) =
           (case dueDate_arg c of Some v \<Rightarrow> Some v | None \<Rightarrow> draft_dueDate (heap w1 r)) \<and>
         draft_assigneeId (heap w2 r) =
           (case assignee_arg c of Some v \<Rightarrow> Some v
            | None \<Rightarrow> draft_assigneeId (heap w1 r)) \<and>
         draft_tags (heap w2 r) =
           (case tags_arg c of Some v \<Rightarrow> Some v | None \<Rightarrow> draft_tags (heap w1 r)) \<and>
         draft_id (heap w2 r) = draft_id (heap w1 r) \<and>
         draft_status (heap w2 r) = draft_status (heap w1 r) \<and>
         draft_createdAt (heap w2 r) = draft_createdAt (heap w1 r) \<and>
         draft_updatedAt (heap w2 r) = draft_updatedAt (heap w1 r) \<and>
         draft_creatorId (heap w2 r) = draft_creatorId (heap w1 r) \<and>
         heap (assign r f w1) (task b) = f (heap w1 (task b))"
proof -
  from assms(1) have r: "r = task b" and w1: "w1 = w"
    by (simp_all add: build_result)
  show ?thesis
    unfolding r
    using invoke_same_builder [OF assms(2)] invoke_field [OF assms(2)]
      invoke_untouched [OF assms(2)] w1
    by (simp add: assign_def)
qed

text \<open>One more \<open>withTitle\<close> on the builder of the scenario, after its \<open>build\<close>.\<close>

theorem build_returns_the_draft_witness:
  "build (release_builder 0) (release_world 0) = (Inr 0, release_world 0) \<and>
   invoke (WithTitle ''Changed'') (release_builder 0) (release_world 0) =
     (Inr (release_builder 0),
      snd (invoke (WithTitle ''Changed'') (release_builder 0) (release_world 0))) \<and>
   draft_title (heap (snd (invoke (WithTitle ''Changed'') (release_builder 0) (release_world 0))) 0) =
     Some ''Changed'' \<and>
   draft_priority (heap (snd (invoke (WithTitle ''Changed'') (release_builder 0) (release_world 0))) 0) =
     Some HIGH \<and>
   draft_creatorId (heap (snd (invoke (WithTitle ''Changed'') (release_builder 0) (release_world 0))) 0) =
     Some ''u1''"
proof -
  have again: "invoke (WithTitle ''Changed'') (release_builder 0) (release_world 0) =
     (Inr (release_builder 0),
      snd (invoke (WithTitle ''Changed'') (release_builder 0) (release_world 0)))"
    by (simp add: withTitle_def validateTitle_def trim_Changed)
  from build_returns_the_draft [OF release_build [of 0] again] release_build [of 0] again
  show ?thesis by (simp add: release_world_heap)
qed

text \<open>
  In the scenario the caller receives the task \<open>Ship release\<close>; after one more
  \<open>withTitle\<close> on the builder, the same Task reads \<open>Changed\<close>.
\<close>

theorem build_snapshot_counterexample:
  "fst (build (release_builder 0) (release_world 0)) = Inr 0 \<and>
   as_Task (heap (release_world 0) 0) = Some (shipped 0) \<and>
   as_Task (heap (snd (withTitle ''Changed'' (release_builder 0) (release_world 0))) 0) =
     Some ((shipped 0)\<lparr>title := ''Changed''\<rparr>)"
proof -
  have "as_Task (heap (snd (withTitle ''Changed'' (release_builder 0) (release_world 0))) 0) =
     Some ((shipped 0)\<lparr>title := ''Changed''\<rparr>)"
    by (simp add: withTitle_def validateTitle_def trim_Changed assign_def release_builder_eq
        as_Task_def release_world_heap shipped_def)
  then show ?thesis
    by (simp add: release_build release_task)
qed

subsection \<open>The entity\<close>

text \<open>
  C10. Whatever the argument of \<open>update\<close> supplies, a value for \<open>updatedAt\<close> included,
  the \<open>updatedAt\<close> of the record after the call is the reading of the clock taken by the
  call.
\<close>

theorem update_stamps_now:
  "updatedAt (fst (update u e w)) = fst (new_Date w) \<and>
   updatedAt (fst (update (u\<lparr>set_updatedAt := Some d\<rparr>) e w)) = fst (new_Date w)"
  by (simp add: update_def new_Date_def Let_def)

text \<open>
  C3 (amended). \<open>update({status: DONE})\<close> sets the status to \<open>DONE\<close> and \<open>updatedAt\<close> to
  the reading of the clock taken by the call, and leaves id, createdAt, creatorId, title,
  description, priority, dueDate, tags and assigneeId unchanged. When the prior
  \<open>updatedAt\<close> is not later than the last reading of the clock, the new one is not earlier
  than it if the clock has not stepped back before the call reads it, and strictly later
  if the clock has advanced.
\<close>

theorem update_status_done_frame:
  assumes "update (no_updates\<lparr>set_status := Some DONE\<rparr>) e w = (e1, w1)"
  shows "status e1 = DONE \<and> updatedAt e1 = Date (now w + ticks w (reads w)) \<and>
         id' e1 = id' e \<and> createdAt e1 = createdAt e \<and> creatorId e1 = creatorId e \<and>
         title e1 = title e \<and> description e1 = description e \<and> priority e1 = priority e \<and>
         dueDate e1 = dueDate e \<and> tags e1 = tags e \<and> assigneeId e1 = assigneeId e \<and>
         (date_le (updatedAt e) (Date (now w)) \<and> 0 \<le> ticks w (reads w) \<longrightarrow>
            date_le (updatedAt e) (updatedAt e1)) \<and>
         (date_le (updatedAt e) (Date (now w)) \<and> 0 < ticks w (reads w) \<longrightarrow>
            date_less (updatedAt e) (updatedAt e1))"
proof -
  have e1: "e1 = e\<lparr>status := DONE, updatedAt := Date (now w + ticks w (reads w))\<rparr>"
    using assms
    by (auto simp: update_def new_Date_def Let_def Object_assign_def no_updates_def own_or_def)
  show ?thesis
    by (cases "updatedAt e") (auto simp: e1)
qed

text \<open>The task of the scenario, updated while the clock advances by one millisecond.\<close>

theorem update_status_done_frame_witness:
  "date_le (updatedAt (TaskEntity_new (shipped 1))) (Date (now (release_world 1))) \<and>
   0 < ticks (release_world 1) (reads (release_world 1)) \<and>
   status (fst (update (no_updates\<lparr>set_status := Some DONE\<rparr>) (TaskEntity_new (shipped 1))
     (release_world 1))) = DONE \<and>
   date_le (updatedAt (TaskEntity_new (shipped 1)))
     (updatedAt (fst (update (no_updates\<lparr>set_status := Some DONE\<rparr>)
        (TaskEntity_new (shipped 1)) (release_world 1)))) \<and>
   date_less (updatedAt (TaskEntity_new (shipped 1)))
     (updatedAt (fst (update (no_updates\<lparr>set_status := Some DONE\<rparr>)
        (TaskEntity_new (shipped 1)) (release_world 1))))"
proof -
  have run: "update (no_updates\<lparr>set_status := Some DONE\<rparr>) (TaskEntity_new (shipped 1))
      (release_world 1) =
     (fst (update (no_updates\<lparr>set_status := Some DONE\<rparr>) (TaskEntity_new (shipped 1))
        (release_world 1)),
      snd (update (no_updates\<lparr>set_status := Some DONE\<rparr>) (TaskEntity_new (shipped 1))
        (release_world 1)))"
    by simp
  have before: "date_le (updatedAt (TaskEntity_new (shipped 1))) (Date (now (release_world 1)))"
    by (simp add: TaskEntity_new_def shipped_def release_world_clock)
  have tick: "0 < ticks (release_world 1) (reads (release_world 1))"
    by (simp add: release_world_clock)
  then have "0 \<le> ticks (release_world 1) (reads (release_world 1))"
    by simp
  with update_status_done_frame [OF run] before tick show ?thesis
    by blast
qed

text \<open>
  The task of the scenario, built and updated within one millisecond: \<open>updatedAt\<close> is
  1000 before the update and 1000 after it.
\<close>

theorem update_strictly_later_counterexample:
  "fst (build (release_builder 0) (release_world 0)) = Inr 0 \<and>
   as_Task (heap (release_world 0) 0) = Some (shipped 0) \<and>
   \<not> date_less (updatedAt (TaskEntity_new (shipped 0)))
       (updatedAt (fst (update (no_updates\<lparr>set_status := Some DONE\<rparr>)
          (TaskEntity_new (shipped 0)) (release_world 0))))"
  by (simp add: release_build release_task update_def new_Date_def Let_def release_world_clock
      TaskEntity_new_def shipped_def)







end
